theory Spec2Isabelle
  imports Main "HOL-Library.Sublist" "HOL-Library.Word"
begin

section \<open>Data model\<close>

text \<open>
  Python \<open>bytes\<close> are lists of 8-bit words; Python \<open>str\<close> values are \<open>string\<close>s whose
  characters are the code points below 256. Timestamps (\<open>datetime\<close>) are abstract
  integers; nothing below depends on their arithmetic.
\<close>

type_synonym bytes = "8 word list"
type_synonym datetime = int

datatype error =
    RuntimeError string
  | ValueError string
  | TypeError string
  | OSError string
  | TransportError string

text \<open>\<open>_source.py\<close>: the closed enumeration \<open>FileSource\<close>.\<close>

datatype file_source = URL | BYTES | FILE | STREAM | S3

text \<open>\<open>_metadata.py\<close>: the dataclass \<open>Metadata\<close>; every field defaults to \<open>None\<close>.\<close>

record metadata =
  name :: "string option"
  mime_type :: "string option"
  size_bytes :: "int option"
  extension :: "string option"
  url :: "string option"
  path :: "string option"
  hash :: "string option"
  last_modified :: "datetime option"
  created_at :: "datetime option"

text \<open>
  The part of an \<open>httpx.Response\<close> the code reads: the header map (keys in lower case,
  as \<open>Headers.get\<close> looks them up) and the body.
\<close>

record http_response =
  headers :: "string \<rightharpoonup> string"
  content :: bytes

text \<open>
  \<open>MetadataHint\<close>: a TypedDict with the fields of \<open>Metadata\<close> plus \<open>response\<close>. A key that
  is absent and a key mapped to \<open>None\<close> are read alike by \<open>hint.get\<close>, so both are \<open>None\<close>.
\<close>

record metadata_hint = metadata +
  response :: "http_response option"

definition empty_hint :: metadata_hint where
  "empty_hint =
     \<lparr>name = None, mime_type = None, size_bytes = None, extension = None, url = None,
      path = None, hash = None, last_modified = None, created_at = None, response = None\<rparr>"

text \<open>\<open>metadata_hint or {}\<close>\<close>

definition hint_or_empty :: "metadata_hint option \<Rightarrow> metadata_hint" where
  "hint_or_empty h = (case h of None \<Rightarrow> empty_hint | Some x \<Rightarrow> x)"

text \<open>
  The dictionary returned by \<open>s3.get_object\<close>. \<open>ContentLength\<close> is an integer in
  boto3 and a string in other clients; \<open>LastModified\<close> is a \<open>datetime\<close> or a string.
\<close>

datatype s3_length = LenInt int | LenStr string
datatype s3_time = TimeDatetime datetime | TimeStr string

record s3_response =
  Body :: "bytes option"
  ContentDisposition :: "string option"
  ContentType :: "string option"
  ContentLength :: "s3_length option"
  ETag :: "string option"
  LastModified :: "s3_time option"

text \<open>One match of \<open>puremagic.magic_string\<close>: the two attributes the code reads.\<close>

datatype pure_magic = PureMagic (pm_extension: string) (pm_mime_type: string)

text \<open>
  The library functions the code calls and this repository does not define. They are
  parameters of the model: \<open>None\<close> stands for the exception the caller catches.
\<close>

record env =
  magic_string :: "bytes \<Rightarrow> pure_magic list option"
  guess_type :: "string \<Rightarrow> string option"
  guess_extension :: "string \<Rightarrow> string option"
  unquote :: "string \<Rightarrow> string"
  parse_int :: "string \<Rightarrow> int option"
  parsedate_to_datetime :: "string \<Rightarrow> datetime option"
  urlparse_path :: "string \<Rightarrow> string option"
  abspath :: "string \<Rightarrow> string"

text \<open>
  The outside world: a flat filesystem, the HTTP transport and the object store.
  \<open>clock\<close> is the time a write stamps on a file.
\<close>

record fs_node =
  node_content :: bytes
  st_mtime :: datetime
  st_ctime :: datetime

record world =
  fs :: "string \<rightharpoonup> fs_node"
  http_get :: "string \<Rightarrow> error + http_response"
  s3_get_object :: "string \<Rightarrow> string \<Rightarrow> error + s3_response"
  clock :: datetime

section \<open>Python string helpers\<close>

text \<open>Truthiness of an optional string: neither \<open>None\<close> nor empty.\<close>

definition truthy :: "string option \<Rightarrow> bool" where
  "truthy v = (case v of None \<Rightarrow> False | Some s \<Rightarrow> s \<noteq> [])"

text \<open>\<open>str.isspace\<close> on one character, for code points below 256; also \<open>\s\<close> of \<open>re\<close>.\<close>

definition is_space :: "char \<Rightarrow> bool" where
  "is_space c =
     (let n = (of_char c :: nat)
      in (9 \<le> n \<and> n \<le> 13) \<or> (28 \<le> n \<and> n \<le> 32) \<or> n = 133 \<or> n = 160)"

definition strip_chars :: "(char \<Rightarrow> bool) \<Rightarrow> string \<Rightarrow> string" where
  "strip_chars P s = rev (dropWhile P (rev (dropWhile P s)))"

text \<open>\<open>s.strip()\<close> and \<open>s.strip('"')\<close>\<close>

definition strip :: "string \<Rightarrow> string" where
  "strip s = strip_chars is_space s"

definition strip_quotes :: "string \<Rightarrow> string" where
  "strip_quotes s = strip_chars (\<lambda>c. c = CHR 0x22) s"

definition startswith :: "string \<Rightarrow> string \<Rightarrow> bool" where
  "startswith s p = (take (length p) s = p)"

definition to_lower :: "char \<Rightarrow> char" where
  "to_lower c =
     (let n = (of_char c :: nat)
      in if 65 \<le> n \<and> n \<le> 90 then char_of (n + 32) else c)"

text \<open>\<open>s.rfind(c)\<close> for a single character: the last index, or \<open>-1\<close>.\<close>

definition rfind :: "char \<Rightarrow> string \<Rightarrow> int" where
  "rfind c s =
     (case filter (\<lambda>i. s ! i = c) (rev [0..<length s]) of
        [] \<Rightarrow> - 1
      | i # _ \<Rightarrow> int i)"

text \<open>\<open>posixpath.splitext\<close>: a dot counts only after a character that is not a dot.\<close>

definition splitext :: "string \<Rightarrow> string \<times> string" where
  "splitext p =
     (let sepIndex = rfind CHR ''/'' p;
          dotIndex = rfind CHR ''.'' p
      in if dotIndex > sepIndex \<and>
            list_ex (\<lambda>i. p ! i \<noteq> CHR ''.'') [nat (sepIndex + 1)..<nat dotIndex]
         then (take (nat dotIndex) p, drop (nat dotIndex) p)
         else (p, []))"

text \<open>\<open>posixpath.basename\<close>\<close>

definition basename :: "string \<Rightarrow> string" where
  "basename p = drop (nat (rfind CHR ''/'' p + 1)) p"

section \<open>Content-Disposition parser (\<open>_content_disposition.py\<close>)\<close>

text \<open>A literal at the start of the input; the rest of the input is returned.\<close>

definition lit :: "string \<Rightarrow> string \<Rightarrow> string option" where
  "lit p s = (if take (length p) s = p then Some (drop (length p) s) else None)"

text \<open>The same under \<open>re.IGNORECASE\<close>, for a literal in lower case.\<close>

definition lit_ci :: "string \<Rightarrow> string \<Rightarrow> string option" where
  "lit_ci p s =
     (if map to_lower (take (length p) s) = p then Some (drop (length p) s) else None)"

text \<open>
  \<open>(.+?)(?:;|$)\<close>: at least one character, none a newline, and as few as possible
  before a \<open>;\<close>, the end of the input, or a newline that ends the input.
\<close>

fun lazy_rest :: "string \<Rightarrow> string option" where
  "lazy_rest [] = Some []"
| "lazy_rest (c # cs) =
     (if c = CHR '';'' then Some []
      else if c = CHR 0x0A then (if cs = [] then Some [] else None)
      else map_option ((#) c) (lazy_rest cs))"

definition lazy_group :: "string \<Rightarrow> string option" where
  "lazy_group s =
     (case s of
        [] \<Rightarrow> None
      | c # cs \<Rightarrow> if c = CHR 0x0A then None else map_option ((#) c) (lazy_rest cs))"

text \<open>
  \<open>filename\*\s*=\s*(?:UTF-8|utf-8)?''(.+?)(?:;|$)\<close> matched at the start of the input;
  the result is group 1.
\<close>

definition match_star_at :: "string \<Rightarrow> string option" where
  "match_star_at s =
     (case lit ''filename*'' s of
        None \<Rightarrow> None
      | Some r1 \<Rightarrow>
          (case lit ''='' (dropWhile is_space r1) of
             None \<Rightarrow> None
           | Some r3 \<Rightarrow>
               (let r4 = dropWhile is_space r3;
                    r5 = (case lit ''UTF-8'' r4 of
                            Some r \<Rightarrow> r
                          | None \<Rightarrow> (case lit ''utf-8'' r4 of Some r \<Rightarrow> r | None \<Rightarrow> r4))
                in case lit [CHR 0x27, CHR 0x27] r5 of
                     None \<Rightarrow> None
                   | Some r6 \<Rightarrow> lazy_group r6)))"

text \<open>\<open>re.search\<close>: the leftmost position at which the pattern matches.\<close>

fun search_star :: "string \<Rightarrow> string option" where
  "search_star [] = match_star_at []"
| "search_star (c # cs) =
     (case match_star_at (c # cs) of Some g \<Rightarrow> Some g | None \<Rightarrow> search_star cs)"

text \<open>
  \<open>filename\s*=\s*"?([^";]+)"?\<close> under \<open>re.IGNORECASE\<close>, at the start of the input. The
  second \<open>\s*\<close> is greedy; when nothing but a quote or \<open>;\<close> follows the white space, the
  matcher backtracks and group 1 is the last white-space character.
\<close>

definition plain_char :: "char \<Rightarrow> bool" where
  "plain_char c = (c \<noteq> CHR 0x22 \<and> c \<noteq> CHR '';'')"

definition match_plain_at :: "string \<Rightarrow> string option" where
  "match_plain_at s =
     (case lit_ci ''filename'' s of
        None \<Rightarrow> None
      | Some r1 \<Rightarrow>
          (case lit ''='' (dropWhile is_space r1) of
             None \<Rightarrow> None
           | Some r3 \<Rightarrow>
               (let ws = takeWhile is_space r3;
                    r4 = dropWhile is_space r3;
                    body = (case lit [CHR 0x22] r4 of Some r \<Rightarrow> r | None \<Rightarrow> r4);
                    g = takeWhile plain_char body
                in if g \<noteq> [] then Some g
                   else if ws \<noteq> [] then Some [last ws]
                   else None)))"

fun search_plain :: "string \<Rightarrow> string option" where
  "search_plain [] = match_plain_at []"
| "search_plain (c # cs) =
     (case match_plain_at (c # cs) of Some g \<Rightarrow> Some g | None \<Rightarrow> search_plain cs)"

definition parse_content_disposition :: "env \<Rightarrow> string \<Rightarrow> string option \<times> string option" where
  "parse_content_disposition e header_value =
     (if header_value = [] then (None, None)
      else
        let filename =
              (case search_star header_value of
                 Some g \<Rightarrow> Some (unquote e (strip g))
               | None \<Rightarrow>
                   (case search_plain header_value of
                      Some g \<Rightarrow> Some (strip_quotes (strip g))
                    | None \<Rightarrow> None))
        in case filename of
             None \<Rightarrow> (None, None)
           | Some fn \<Rightarrow>
               (let ext = snd (splitext fn)
                in (Some fn, if ext \<noteq> [] then Some ext else None)))"

section \<open>Detection (\<open>_detection.py\<close>)\<close>

definition detect_from_bytes :: "env \<Rightarrow> bytes \<Rightarrow> string option \<times> string option" where
  "detect_from_bytes e data =
     (if data = [] then (None, None)
      else case magic_string e data of
             None \<Rightarrow> (None, None)
           | Some [] \<Rightarrow> (None, None)
           | Some (best # _) \<Rightarrow>
               (if pm_mime_type best \<noteq> [] then Some (pm_mime_type best) else None,
                if pm_extension best \<noteq> [] then Some (pm_extension best) else None))"

definition detect_from_extension :: "env \<Rightarrow> string \<Rightarrow> string option \<times> string option" where
  "detect_from_extension e filename =
     (if filename = [] then (None, None)
      else
        let ext = snd (splitext filename)
        in (guess_type e filename, if ext \<noteq> [] then Some ext else None))"

definition extension_from_mime :: "env \<Rightarrow> string \<Rightarrow> string option" where
  "extension_from_mime e m = (if m = [] then None else guess_extension e m)"

section \<open>Metadata pipeline (\<open>File._build_metadata\<close>)\<close>

definition str_or_empty :: "string option \<Rightarrow> string" where
  "str_or_empty v = (case v of None \<Rightarrow> [] | Some s \<Rightarrow> s)"

definition filename_from_url :: "env \<Rightarrow> string option \<Rightarrow> string option" where
  "filename_from_url e u =
     (if \<not> truthy u then None
      else case urlparse_path e (str_or_empty u) of
             None \<Rightarrow> None
           | Some p \<Rightarrow>
               (let b = basename p
                in if b \<noteq> [] \<and> b \<noteq> ''/'' then Some b else None))"

definition parse_http_date :: "env \<Rightarrow> string \<Rightarrow> datetime option" where
  "parse_http_date e date_str = parsedate_to_datetime e date_str"

text \<open>
  The function is one cascade over nine local variables; the working record holds
  them, and each commented section of the source is one stage below.
\<close>

text \<open>\<open># ------ HTTP response headers ------\<close>\<close>

definition http_stage :: "env \<Rightarrow> http_response \<Rightarrow> metadata \<Rightarrow> metadata" where
  "http_stage e r m =
     (let h = headers r;
          cd = h ''content-disposition'';
          cd_name = (if truthy cd then fst (parse_content_disposition e (str_or_empty cd))
                     else None);
          name1 = (if truthy cd_name then cd_name else name m);
          name2 = (if name1 = None then filename_from_url e (url m) else name1);
          ct = h ''content-type'';
          cl = h ''content-length'';
          etag = h ''etag'';
          lm = h ''last-modified'';
          cmd5 = h ''content-md5'';
          size1 = (case cl of
                     None \<Rightarrow> size_bytes m
                   | Some c \<Rightarrow> (case parse_int e c of Some n \<Rightarrow> Some n | None \<Rightarrow> size_bytes m));
          mime1 = (if truthy ct then ct
                   else if truthy name2 then
                     (let ext_mime = fst (detect_from_extension e (str_or_empty name2))
                      in if truthy ext_mime then ext_mime else mime_type m)
                   else mime_type m);
          hash1 = (if truthy etag then Some (strip_quotes (str_or_empty etag))
                   else if truthy cmd5 then cmd5
                   else hash m);
          lm1 = (if truthy lm then
                   (case parse_http_date e (str_or_empty lm) of
                      Some d \<Rightarrow> Some d
                    | None \<Rightarrow> last_modified m)
                 else last_modified m)
      in m\<lparr>name := name2, mime_type := mime1, size_bytes := size1, hash := hash1,
           last_modified := lm1\<rparr>)"

text \<open>\<open>int(s3_cl)\<close> with \<open>ValueError\<close> and \<open>TypeError\<close> caught.\<close>

definition int_of_length :: "env \<Rightarrow> s3_length \<Rightarrow> int option" where
  "int_of_length e v = (case v of LenInt n \<Rightarrow> Some n | LenStr s \<Rightarrow> parse_int e s)"

text \<open>\<open># ------ S3 response metadata ------\<close>\<close>

definition s3_stage :: "env \<Rightarrow> s3_response \<Rightarrow> metadata \<Rightarrow> metadata" where
  "s3_stage e r m =
     (let s3_cd = ContentDisposition r;
          cd_name = (if truthy s3_cd
                     then fst (parse_content_disposition e (str_or_empty s3_cd))
                     else None);
          name1 = (if truthy cd_name then cd_name else name m);
          s3_ct = ContentType r;
          s3_cl = ContentLength r;
          s3_etag = ETag r;
          s3_lm = LastModified r;
          size1 = (case s3_cl of
                     None \<Rightarrow> size_bytes m
                   | Some c \<Rightarrow> (case int_of_length e c of Some n \<Rightarrow> Some n | None \<Rightarrow> size_bytes m));
          mime1 = (if truthy s3_ct then s3_ct
                   else if truthy name1 then
                     (let ext_mime = fst (detect_from_extension e (str_or_empty name1))
                      in if truthy ext_mime then ext_mime else mime_type m)
                   else mime_type m);
          hash1 = (if truthy s3_etag then Some (strip_quotes (str_or_empty s3_etag))
                   else hash m);
          lm1 = (case s3_lm of
                   None \<Rightarrow> last_modified m
                 | Some (TimeDatetime d) \<Rightarrow> Some d
                 | Some (TimeStr s) \<Rightarrow>
                     (if s = [] then last_modified m
                      else case parse_http_date e s of
                             Some d \<Rightarrow> Some d
                           | None \<Rightarrow> last_modified m))
      in m\<lparr>name := name1, mime_type := mime1, size_bytes := size1, hash := hash1,
           last_modified := lm1\<rparr>)"

text \<open>
  \<open># ------ File system stat ------\<close>; the caller checks that the source is
  \<open>FILE\<close> and that the path is not empty. A missing file is the \<open>OSError\<close> absorbed.
\<close>

definition stat_stage :: "env \<Rightarrow> world \<Rightarrow> metadata \<Rightarrow> metadata" where
  "stat_stage e w m =
     (let file_path = str_or_empty (path m);
          m1 = (case fs w file_path of
                  None \<Rightarrow> m
                | Some st \<Rightarrow>
                    m\<lparr>size_bytes := Some (int (length (node_content st))),
                      last_modified := Some (st_mtime st),
                      created_at := Some (st_ctime st)\<rparr>);
          ext_mime = fst (detect_from_extension e file_path)
      in if truthy ext_mime then m1\<lparr>mime_type := ext_mime\<rparr> else m1)"

text \<open>\<open># ------ Name-based MIME fallback ------\<close>\<close>

definition name_mime_stage :: "env \<Rightarrow> metadata \<Rightarrow> metadata" where
  "name_mime_stage e m =
     (if \<not> truthy (mime_type m) \<and> truthy (name m) then
        (let ext_mime = fst (detect_from_extension e (str_or_empty (name m)))
         in if truthy ext_mime then m\<lparr>mime_type := ext_mime\<rparr> else m)
      else m)"

text \<open>\<open># ------ Magic-byte detection ------\<close>\<close>

definition magic_stage :: "env \<Rightarrow> bytes option \<Rightarrow> metadata \<Rightarrow> metadata" where
  "magic_stage e data m =
     (case data of
        None \<Rightarrow> m
      | Some d \<Rightarrow>
          if d = [] then m
          else
            let magic_mime = fst (detect_from_bytes e d);
                magic_ext = snd (detect_from_bytes e d);
                m1 = (if truthy magic_mime then m\<lparr>mime_type := magic_mime\<rparr> else m)
            in if truthy magic_ext then
                 m1\<lparr>extension :=
                      Some (if startswith (str_or_empty magic_ext) ''.''
                            then str_or_empty magic_ext
                            else ''.'' @ str_or_empty magic_ext)\<rparr>
               else m1)"

text \<open>\<open># ------ Extension fallback from MIME ------\<close>\<close>

definition ext_fallback_stage :: "env \<Rightarrow> metadata \<Rightarrow> metadata" where
  "ext_fallback_stage e m =
     (if \<not> truthy (extension m) \<and> truthy (mime_type m) then
        (let ext = extension_from_mime e (str_or_empty (mime_type m))
         in if truthy ext then m\<lparr>extension := ext\<rparr> else m)
      else m)"

text \<open>\<open># Normalise extension: strip leading dot\<close>: \<open>extension[1:]\<close> drops one character.\<close>

definition normalise_stage :: "metadata \<Rightarrow> metadata" where
  "normalise_stage m =
     (if truthy (extension m) \<and> startswith (str_or_empty (extension m)) ''.''
      then m\<lparr>extension := Some (drop 1 (str_or_empty (extension m)))\<rparr>
      else m)"

definition build_metadata ::
  "env \<Rightarrow> world \<Rightarrow> file_source \<Rightarrow> metadata_hint option \<Rightarrow> http_response option \<Rightarrow>
   s3_response option \<Rightarrow> bytes option \<Rightarrow> metadata" where
  "build_metadata e w fsrc metadata_hint http_resp s3_resp data =
     (let hint = hint_or_empty metadata_hint;
          m0 = metadata.truncate hint;
          http_resp1 = (case http_resp of None \<Rightarrow> response hint | Some r \<Rightarrow> Some r);
          m1 = (case http_resp1 of None \<Rightarrow> m0 | Some r \<Rightarrow> http_stage e r m0);
          m2 = (case s3_resp of None \<Rightarrow> m1 | Some r \<Rightarrow> s3_stage e r m1);
          m3 = (if fsrc = FILE \<and> truthy (path m2) then stat_stage e w m2 else m2);
          m4 = name_mime_stage e m3;
          m5 = magic_stage e data m4;
          m6 = ext_fallback_stage e m5
      in normalise_stage m6)"

section \<open>The File entity (\<open>_file.py\<close>)\<close>

text \<open>
  A stream argument: an asynchronous iterator (the chunks it will yield), a synchronous
  file-like object (the content that \<open>read\<close> has not returned yet), or an object with
  neither \<open>__aiter__\<close> nor \<open>read\<close>.
\<close>

datatype stream = AsyncIterator "bytes list" | FileLike bytes | NoStream

record file_entity =
  f_source :: file_source
  f_metadata :: metadata
  f_bytes :: "bytes option"
  f_stream :: "stream option"

text \<open>\<open>File.__init__\<close>; the factories never pass a stream.\<close>

definition File :: "file_source \<Rightarrow> metadata \<Rightarrow> bytes option \<Rightarrow> stream option \<Rightarrow> file_entity" where
  "File fsrc md data strm = \<lparr>f_source = fsrc, f_metadata = md, f_bytes = data, f_stream = strm\<rparr>"

definition from_url :: "env \<Rightarrow> world \<Rightarrow> string \<Rightarrow> metadata_hint option \<Rightarrow> error + file_entity" where
  "from_url e w u metadata_hint =
     (let hint = (hint_or_empty metadata_hint)\<lparr>url := Some u\<rparr>
      in case http_get w u of
           Inl err \<Rightarrow> Inl err
         | Inr resp \<Rightarrow>
             (let data = content resp;
                  md = build_metadata e w URL (Some hint) (Some resp) None (Some data)
              in Inr (File URL md (Some data) None)))"

definition from_bytes :: "env \<Rightarrow> world \<Rightarrow> bytes \<Rightarrow> metadata_hint option \<Rightarrow> file_entity" where
  "from_bytes e w data metadata_hint =
     (let raw = data;
          hint = (hint_or_empty metadata_hint)\<lparr>size_bytes := Some (int (length raw))\<rparr>;
          md = build_metadata e w BYTES (Some hint) None None (Some raw)
      in File BYTES md (Some raw) None)"

definition from_file :: "env \<Rightarrow> world \<Rightarrow> string \<Rightarrow> metadata_hint option \<Rightarrow> error + file_entity" where
  "from_file e w file_path metadata_hint =
     (let abs_path = abspath e file_path;
          hint = (hint_or_empty metadata_hint)
                   \<lparr>name := Some (basename abs_path), path := Some abs_path\<rparr>
      in case fs w abs_path of
           None \<Rightarrow> Inl (OSError abs_path)
         | Some node \<Rightarrow>
             (let data = node_content node;
                  md = build_metadata e w FILE (Some hint) None None (Some data)
              in Inr (File FILE md (Some data) None)))"

text \<open>
  The loop over a synchronous file-like object: \<open>read(65536)\<close> until an empty chunk.
\<close>

function read_chunks :: "bytes \<Rightarrow> bytes list \<Rightarrow> bytes list" where
  "read_chunks remaining chunks =
     (let chunk = take 65536 remaining
      in if chunk = [] then chunks
         else read_chunks (drop 65536 remaining) (chunks @ [chunk]))"
  by pat_completeness auto
termination
  by (relation "measure (\<lambda>(remaining, chunks). length remaining)") auto

declare read_chunks.simps [simp del]

definition from_stream :: "env \<Rightarrow> world \<Rightarrow> stream \<Rightarrow> metadata_hint option \<Rightarrow> error + file_entity" where
  "from_stream e w strm metadata_hint =
     (case (case strm of
              AsyncIterator cs \<Rightarrow> Inr cs
            | FileLike b \<Rightarrow> Inr (read_chunks b [])
            | NoStream \<Rightarrow>
                Inl (TypeError ''stream must be an async iterator or a file-like object with read()''))
      of
        Inl err \<Rightarrow> Inl err
      | Inr chunks \<Rightarrow>
          (let data = concat chunks;
               hint = (hint_or_empty metadata_hint)\<lparr>size_bytes := Some (int (length data))\<rparr>;
               md = build_metadata e w STREAM (Some hint) None None (Some data)
           in Inr (File STREAM md (Some data) None)))"

definition from_s3 ::
  "env \<Rightarrow> world \<Rightarrow> string \<Rightarrow> string \<Rightarrow> metadata_hint option \<Rightarrow> error + file_entity" where
  "from_s3 e w bucket key metadata_hint =
     (case s3_get_object w bucket key of
        Inl err \<Rightarrow> Inl err
      | Inr resp \<Rightarrow>
          (case Body resp of
             None \<Rightarrow> Inl (RuntimeError ''Response body is missing'')
           | Some data \<Rightarrow>
               (let hint = (hint_or_empty metadata_hint)
                             \<lparr>name := Some (basename key),
                              url := Some (''s3://'' @ bucket @ ''/'' @ key)\<rparr>;
                    md = build_metadata e w S3 (Some hint) None (Some resp) (Some data)
                in Inr (File S3 md (Some data) None))))"

text \<open>
  \<open>File.read\<close>: the buffer when there is one; otherwise the pending stream is drained
  (only an asynchronous iterator yields anything) and the result cached.
\<close>

definition read :: "file_entity \<Rightarrow> bytes \<times> file_entity" where
  "read f =
     (case f_bytes f of
        Some b \<Rightarrow> (b, f)
      | None \<Rightarrow>
          (case f_stream f of
             Some strm \<Rightarrow>
               (let chunks = (case strm of AsyncIterator cs \<Rightarrow> cs | _ \<Rightarrow> []);
                    drained = (case strm of AsyncIterator cs \<Rightarrow> AsyncIterator [] | x \<Rightarrow> x);
                    b = concat chunks
                in (b, f\<lparr>f_bytes := Some b, f_stream := Some drained\<rparr>))
           | None \<Rightarrow> ([], f)))"

text \<open>\<open>str.replace(old, new, 1)\<close> and \<open>str.split(sep, 1)\<close> for a one-character separator.\<close>

fun replace_first :: "string \<Rightarrow> string \<Rightarrow> string \<Rightarrow> string" where
  "replace_first old new [] = (if old = [] then new else [])"
| "replace_first old new (c # cs) =
     (if take (length old) (c # cs) = old then new @ drop (length old) (c # cs)
      else c # replace_first old new cs)"

definition split_once :: "char \<Rightarrow> string \<Rightarrow> string list" where
  "split_once sep s =
     (if sep \<in> set s
      then [takeWhile (\<lambda>c. c \<noteq> sep) s, drop 1 (dropWhile (\<lambda>c. c \<noteq> sep) s)]
      else [s])"

definition parse_s3_url :: "string \<Rightarrow> error + string \<times> string" where
  "parse_s3_url u =
     (let stripped = replace_first ''s3://'' [] u;
          parts = split_once CHR ''/'' stripped
      in case parts of
           [b, k] \<Rightarrow> Inr (b, k)
         | _ \<Rightarrow> Inl (ValueError (''Invalid S3 URL: '' @ u)))"

text \<open>\<open>File._refresh\<close>: the entity's new state, or the error raised before \<open>_clone\<close>.\<close>

definition refresh :: "env \<Rightarrow> world \<Rightarrow> file_entity \<Rightarrow> error + file_entity" where
  "refresh e w f =
     (let md = f_metadata f
      in if f_source f = FILE \<and> truthy (path md) then
           from_file e w (str_or_empty (path md)) None
         else if f_source f = S3 \<and> truthy (url md) then
           (case parse_s3_url (str_or_empty (url md)) of
              Inl err \<Rightarrow> Inl err
            | Inr (bucket, key) \<Rightarrow> from_s3 e w bucket key None)
         else if f_source f = URL \<and> truthy (url md) then
           from_url e w (str_or_empty (url md)) None
         else if f_source f = BYTES \<and> f_bytes f \<noteq> None then
           Inr (from_bytes e w (case f_bytes f of Some b \<Rightarrow> b | None \<Rightarrow> []) None)
         else if f_source f = STREAM \<and> f_stream f \<noteq> None then
           from_stream e w (case f_stream f of Some x \<Rightarrow> x | None \<Rightarrow> NoStream) None
         else Inl (RuntimeError ''Cannot refresh file from source''))"

text \<open>\<open>ContentLike\<close> and its bytes: a string is encoded as UTF-8.\<close>

datatype content_like = Str string | Bytes bytes

definition encode_utf8 :: "string \<Rightarrow> bytes" where
  "encode_utf8 s =
     concat (map (\<lambda>c. let n = (of_char c :: nat)
                      in if n < 128 then [of_nat n]
                         else [of_nat (192 + n div 64), of_nat (128 + n mod 64)]) s)"

definition raw_of :: "content_like \<Rightarrow> bytes" where
  "raw_of c = (case c of Str s \<Rightarrow> encode_utf8 s | Bytes b \<Rightarrow> b)"

text \<open>A write to the filesystem replaces the content and stamps both times.\<close>

definition write_file :: "world \<Rightarrow> string \<Rightarrow> bytes \<Rightarrow> world" where
  "write_file w p data =
     w\<lparr>fs := (fs w)(p \<mapsto> \<lparr>node_content = data, st_mtime = clock w, st_ctime = clock w\<rparr>)\<rparr>"

text \<open>
  The three mutating operations. Each returns what the call raised (or nothing) together
  with the world and the entity after the call; a raise before \<open>_refresh\<close> completes
  leaves the entity as it was.
\<close>

definition finish_refresh :: "env \<Rightarrow> world \<Rightarrow> file_entity \<Rightarrow> (error + unit) \<times> world \<times> file_entity" where
  "finish_refresh e w f =
     (case refresh e w f of
        Inl err \<Rightarrow> (Inl err, w, f)
      | Inr f' \<Rightarrow> (Inr (), w, f'))"

definition append :: "env \<Rightarrow> content_like \<Rightarrow> world \<times> file_entity \<Rightarrow> (error + unit) \<times> world \<times> file_entity" where
  "append e c st =
     (let w = fst st; f = snd st
      in if f_source f \<noteq> FILE \<or> \<not> truthy (path (f_metadata f)) then
           (Inl (RuntimeError ''Cannot append to non-file source''), w, f)
         else
           let p = str_or_empty (path (f_metadata f));
               raw = raw_of c;
               old = (case fs w p of None \<Rightarrow> [] | Some node \<Rightarrow> node_content node)
           in finish_refresh e (write_file w p (old @ raw)) f)"

definition prepend :: "env \<Rightarrow> content_like \<Rightarrow> world \<times> file_entity \<Rightarrow> (error + unit) \<times> world \<times> file_entity" where
  "prepend e c st =
     (let w = fst st; f = snd st
      in if f_source f \<noteq> FILE \<or> \<not> truthy (path (f_metadata f)) then
           (Inl (RuntimeError ''Cannot prepend to non-file source''), w, f)
         else
           let existing = fst (read f);
               f1 = snd (read f);
               p = str_or_empty (path (f_metadata f));
               raw = raw_of c
           in finish_refresh e (write_file w p (raw @ existing)) f1)"

definition truncate :: "env \<Rightarrow> int \<Rightarrow> world \<times> file_entity \<Rightarrow> (error + unit) \<times> world \<times> file_entity" where
  "truncate e n st =
     (let w = fst st; f = snd st
      in if f_source f \<noteq> FILE \<or> \<not> truthy (path (f_metadata f)) then
           (Inl (RuntimeError ''Cannot truncate non-file source''), w, f)
         else
           let p = str_or_empty (path (f_metadata f))
           in case fs w p of
                None \<Rightarrow> (Inl (OSError p), w, f)
              | Some node \<Rightarrow>
                  if n < 0 then (Inl (OSError ''Invalid argument''), w, f)
                  else
                    let old = node_content node;
                        new = take (nat n) old @ replicate (nat n - length old) 0
                    in finish_refresh e (write_file w p new) f)"

section \<open>A concrete environment\<close>

text \<open>
  Small stand-ins for the library functions and the outside world, on which the
  theorems below are exercised: a sniffer that knows the PNG signature, a MIME table
  with two entries, decimal integers, and one stored object, file and URL.
\<close>

definition png_signature :: bytes where
  "png_signature = [0x89, 0x50, 0x4E, 0x47, 0x0D, 0x0A, 0x1A, 0x0A]"

definition sample_parse_int :: "string \<Rightarrow> int option" where
  "sample_parse_int s =
     (if s \<noteq> [] \<and> list_all (\<lambda>c. 48 \<le> (of_char c :: nat) \<and> (of_char c :: nat) \<le> 57) s
      then Some (foldl (\<lambda>a c. 10 * a + (int (of_char c) - 48)) 0 s)
      else None)"

definition sample_env :: env where
  "sample_env =
     \<lparr>magic_string =
        (\<lambda>d. if take 8 d = png_signature then Some [PureMagic ''.png'' ''image/png'']
              else None),
      guess_type = (\<lambda>n. if snd (splitext n) = ''.txt'' then Some ''text/plain'' else None),
      guess_extension =
        (\<lambda>m. if m = ''text/plain'' then Some ''.txt''
              else if m = ''image/png'' then Some ''.png''
              else None),
      unquote = (\<lambda>s. if s = ''my%20file.txt'' then ''my file.txt'' else s),
      parse_int = sample_parse_int,
      parsedate_to_datetime = (\<lambda>s. if s = ''Thu, 01 Jan 1970 00:00:10 GMT'' then Some 10 else None),
      urlparse_path = (\<lambda>u. Some (drop 19 u)),
      abspath = (\<lambda>p. p)\<rparr>"

definition hello_bytes :: bytes where
  "hello_bytes = map of_char ''Hello, world!''"

definition sample_http_response :: http_response where
  "sample_http_response =
     \<lparr>headers = [''content-type'' \<mapsto> ''application/octet-stream'',
                 ''content-length'' \<mapsto> ''twelve'',
                 ''last-modified'' \<mapsto> ''yesterday''],
      content = png_signature\<rparr>"

definition sample_s3_response :: s3_response where
  "sample_s3_response =
     \<lparr>Body = Some hello_bytes, ContentDisposition = None, ContentType = None,
      ContentLength = Some (LenStr ''999''), ETag = None, LastModified = None\<rparr>"

definition sample_world :: world where
  "sample_world =
     \<lparr>fs = [''/tmp/hello.txt'' \<mapsto> \<lparr>node_content = hello_bytes, st_mtime = 5, st_ctime = 4\<rparr>],
      http_get =
        (\<lambda>u. if u = ''https://example.com/logo'' then Inr sample_http_response
              else Inl (TransportError u)),
      s3_get_object =
        (\<lambda>b k. if b = ''bucket'' \<and> k = ''docs/hello.txt'' then Inr sample_s3_response
                else Inl (TransportError k)),
      clock = 7\<rparr>"

section \<open>Basic facts about the stages\<close>

lemma truncate_fields [simp]:
  "size_bytes (metadata.truncate h) = size_bytes h"
  "last_modified (metadata.truncate h) = last_modified h"
  "url (metadata.truncate h) = url h"
  "path (metadata.truncate h) = path h"
  "extension (metadata.truncate h) = extension h"
  by (simp_all add: metadata.truncate_def)

lemma truthy_Some [simp]: "truthy (Some s) = (s \<noteq> [])"
  by (simp add: truthy_def)

lemma truthy_None [simp]: "truthy None = False"
  by (simp add: truthy_def)

lemma str_or_empty_simps [simp]: "str_or_empty (Some s) = s" "str_or_empty None = []"
  by (simp_all add: str_or_empty_def)

text \<open>Which fields each stage leaves alone.\<close>

lemma normalise_stage_fields [simp]:
  "mime_type (normalise_stage m) = mime_type m"
  "size_bytes (normalise_stage m) = size_bytes m"
  "last_modified (normalise_stage m) = last_modified m"
  "url (normalise_stage m) = url m"
  "name (normalise_stage m) = name m"
  by (simp_all add: normalise_stage_def)

lemma ext_fallback_stage_fields [simp]:
  "mime_type (ext_fallback_stage e m) = mime_type m"
  "size_bytes (ext_fallback_stage e m) = size_bytes m"
  "last_modified (ext_fallback_stage e m) = last_modified m"
  "url (ext_fallback_stage e m) = url m"
  "name (ext_fallback_stage e m) = name m"
  by (simp_all add: ext_fallback_stage_def Let_def)

lemma magic_stage_fields [simp]:
  "size_bytes (magic_stage e d m) = size_bytes m"
  "last_modified (magic_stage e d m) = last_modified m"
  "url (magic_stage e d m) = url m"
  "name (magic_stage e d m) = name m"
  by (simp_all add: magic_stage_def Let_def split: option.splits)

lemma name_mime_stage_fields [simp]:
  "size_bytes (name_mime_stage e m) = size_bytes m"
  "last_modified (name_mime_stage e m) = last_modified m"
  "url (name_mime_stage e m) = url m"
  "name (name_mime_stage e m) = name m"
  "extension (name_mime_stage e m) = extension m"
  by (simp_all add: name_mime_stage_def Let_def)

lemma stat_stage_fields [simp]:
  "url (stat_stage e w m) = url m"
  "name (stat_stage e w m) = name m"
  "extension (stat_stage e w m) = extension m"
  by (simp_all add: stat_stage_def Let_def split: option.splits)

lemma s3_stage_fields [simp]:
  "url (s3_stage e r m) = url m"
  "extension (s3_stage e r m) = extension m"
  by (simp_all add: s3_stage_def Let_def)

lemma http_stage_fields [simp]:
  "url (http_stage e r m) = url m"
  "extension (http_stage e r m) = extension m"
  by (simp_all add: http_stage_def Let_def)

lemma detect_from_bytes_mime_nonempty:
  "fst (detect_from_bytes e d) = Some m \<Longrightarrow> m \<noteq> []"
  by (auto simp: detect_from_bytes_def split: if_splits option.splits list.splits)

lemma magic_stage_mime:
  "d \<noteq> [] \<Longrightarrow> fst (detect_from_bytes e d) = Some m \<Longrightarrow>
   mime_type (magic_stage e (Some d) m0) = Some m"
  using detect_from_bytes_mime_nonempty [of e d m]
  by (simp add: magic_stage_def Let_def)

lemma sample_detect_png:
  "detect_from_bytes sample_env png_signature = (Some ''image/png'', Some ''.png'')"
  by (simp add: detect_from_bytes_def sample_env_def png_signature_def)

section \<open>Signature sniffing decides the MIME type\<close>

text \<open>
  C1. Whenever the raw data is not empty and the byte-signature sniffer returns a MIME
  type, the resolved \<open>mime_type\<close> is the sniffed one, whatever the hint, the transport
  headers, the object-store attributes, the filesystem or the name said before.
\<close>

theorem C1_magic_mime_overrides:
  assumes "data \<noteq> []" and "fst (detect_from_bytes e data) = Some m"
  shows "mime_type (build_metadata e w fsrc hint http_resp s3_resp (Some data)) = Some m"
  using assms by (simp add: build_metadata_def Let_def magic_stage_mime)

text \<open>
  The PNG instance: the header claims \<open>application/octet-stream\<close>, the bytes carry the
  PNG signature, and the resolved type is \<open>image/png\<close>.
\<close>

theorem C1_magic_mime_overrides_witness:
  "png_signature \<noteq> [] \<and> fst (detect_from_bytes sample_env png_signature) = Some ''image/png'' \<and>
   headers sample_http_response ''content-type'' = Some ''application/octet-stream'' \<and>
   mime_type (build_metadata sample_env sample_world URL None (Some sample_http_response) None
                (Some png_signature)) = Some ''image/png''"
proof -
  have a: "png_signature \<noteq> []" by (simp add: png_signature_def)
  have b: "fst (detect_from_bytes sample_env png_signature) = Some ''image/png''"
    by (simp add: sample_detect_png)
  have c: "headers sample_http_response ''content-type'' = Some ''application/octet-stream''"
    by (simp add: sample_http_response_def)
  show ?thesis using a b c C1_magic_mime_overrides [OF a b] by simp
qed

section \<open>The stored extension and its leading separator\<close>

lemma startswith_dot: "startswith s ''.'' = (\<exists>t. s = CHR ''.'' # t)"
  by (cases s) (auto simp: startswith_def)

lemma startswith_dotdot: "startswith s ''..'' = (\<exists>t. s = CHR ''.'' # CHR ''.'' # t)"
  by (cases s; cases "tl s") (auto simp: startswith_def)

lemma normalise_no_dot:
  "\<not> startswith (str_or_empty (extension m)) ''..'' \<Longrightarrow>
   \<not> startswith (str_or_empty (extension (normalise_stage m))) ''.''"
  by (cases "extension m") (auto simp: normalise_stage_def startswith_dot startswith_dotdot)

lemma ext_fallback_no_dotdot:
  "\<not> startswith (str_or_empty (extension m)) ''..'' \<Longrightarrow>
   \<forall>t. \<not> startswith (str_or_empty (guess_extension e t)) ''..'' \<Longrightarrow>
   \<not> startswith (str_or_empty (extension (ext_fallback_stage e m))) ''..''"
  by (auto simp: ext_fallback_stage_def extension_from_mime_def Let_def)

lemma magic_no_dotdot:
  "\<not> startswith (str_or_empty (extension m)) ''..'' \<Longrightarrow>
   \<forall>d. \<not> startswith (str_or_empty (snd (detect_from_bytes e d))) ''..'' \<Longrightarrow>
   \<not> startswith (str_or_empty (extension (magic_stage e data m))) ''..''"
  apply (cases data)
   apply (simp add: magic_stage_def)
  subgoal for d
    apply (cases "snd (detect_from_bytes e d)")
     apply (simp add: magic_stage_def Let_def)
    apply (drule spec [of _ d])
    apply (auto simp: magic_stage_def Let_def startswith_dot startswith_dotdot)
    done
  done

lemma sample_detect_hello: "detect_from_bytes sample_env hello_bytes = (None, None)"
  by (simp add: detect_from_bytes_def sample_env_def hello_bytes_def png_signature_def)

text \<open>
  C3. The stored extension is meant to carry no leading dot: the comment on the
  resolver's last step reads \<open>strip leading dot for storage consistency\<close>. The strip is one \<open>startswith\<close> test
  followed by \<open>extension[1:]\<close>, which removes a single character. Constructing from
  the bytes \<open>Hello, world!\<close> with the hint extension \<open>..txt\<close> (the sniffer finds no
  signature, so the hint's extension reaches the last stage) stores \<open>.txt\<close>, which
  begins with a dot.
\<close>

theorem C3_doubled_dot_extension_keeps_a_dot:
  "extension (f_metadata (from_bytes sample_env sample_world hello_bytes
       (Some (empty_hint\<lparr>extension := Some ''..txt''\<rparr>)))) = Some ''.txt''"
proof -
  let ?h = "empty_hint\<lparr>extension := Some ''..txt'', size_bytes := Some (int (length hello_bytes))\<rparr>"
  let ?m0 = "metadata.truncate ?h"
  have e0: "extension ?m0 = Some ''..txt''" by simp
  have r0: "response ?h = None" by (simp add: empty_hint_def)
  have e4: "extension (name_mime_stage sample_env ?m0) = Some ''..txt''" using e0 by simp
  have e5: "extension (magic_stage sample_env (Some hello_bytes) (name_mime_stage sample_env ?m0))
              = Some ''..txt''"
    using e4 by (simp add: magic_stage_def Let_def sample_detect_hello truthy_def)
  have e6: "extension (ext_fallback_stage sample_env
               (magic_stage sample_env (Some hello_bytes) (name_mime_stage sample_env ?m0)))
              = Some ''..txt''"
    using e5 by (simp add: ext_fallback_stage_def truthy_def)
  have e7: "extension (normalise_stage (ext_fallback_stage sample_env
               (magic_stage sample_env (Some hello_bytes) (name_mime_stage sample_env ?m0))))
              = Some ''.txt''"
    using e6 by (simp add: normalise_stage_def truthy_def str_or_empty_def startswith_def)
  have bm: "build_metadata sample_env sample_world BYTES (Some ?h) None None (Some hello_bytes)
              = normalise_stage (ext_fallback_stage sample_env
               (magic_stage sample_env (Some hello_bytes) (name_mime_stage sample_env ?m0)))"
    using r0 by (simp add: build_metadata_def Let_def hint_or_empty_def)
  show ?thesis
    unfolding from_bytes_def Let_def hint_or_empty_def option.case File_def
    using bm e7 by simp
qed

text \<open>
  The strip does remove the dot that the sniffer and the MIME table put in front of
  their answers: when neither the hint's extension, nor an extension returned by the
  sniffer, nor one returned by the table begins with two dots, the resolved extension
  does not begin with a dot.
\<close>

lemma extension_dot_stripped_unless_doubled:
  assumes "\<not> startswith (str_or_empty (extension (hint_or_empty hint))) ''..''"
    and "\<forall>d. \<not> startswith (str_or_empty (snd (detect_from_bytes e d))) ''..''"
    and "\<forall>t. \<not> startswith (str_or_empty (guess_extension e t)) ''..''"
  shows "\<not> startswith (str_or_empty (extension
            (build_metadata e w fsrc hint http_resp s3_resp data))) ''.''"
proof -
  let ?h = "hint_or_empty hint"
  let ?m0 = "metadata.truncate ?h"
  let ?r1 = "case http_resp of None \<Rightarrow> response ?h | Some r \<Rightarrow> Some r"
  let ?m1 = "case ?r1 of None \<Rightarrow> ?m0 | Some r \<Rightarrow> http_stage e r ?m0"
  let ?m2 = "case s3_resp of None \<Rightarrow> ?m1 | Some r \<Rightarrow> s3_stage e r ?m1"
  let ?m3 = "if fsrc = FILE \<and> truthy (path ?m2) then stat_stage e w ?m2 else ?m2"
  let ?m4 = "name_mime_stage e ?m3"
  have e0: "extension ?m0 = extension ?h" by (simp add: metadata.truncate_def)
  have e1: "extension ?m1 = extension ?m0" by (simp split: option.splits)
  have e2: "extension ?m2 = extension ?m1" by (simp split: option.splits)
  have e4: "extension ?m4 = extension ?m2" by simp
  have "\<not> startswith (str_or_empty (extension ?m4)) ''..''"
    using assms(1) e0 e1 e2 e4 by simp
  then have "\<not> startswith (str_or_empty (extension (magic_stage e data ?m4))) ''..''"
    using assms(2) by (rule magic_no_dotdot)
  then have "\<not> startswith (str_or_empty (extension
        (ext_fallback_stage e (magic_stage e data ?m4)))) ''..''"
    using assms(3) by (rule ext_fallback_no_dotdot)
  then have "\<not> startswith (str_or_empty (extension
        (normalise_stage (ext_fallback_stage e (magic_stage e data ?m4))))) ''.''"
    by (rule normalise_no_dot)
  then show ?thesis by (simp add: build_metadata_def Let_def)
qed

section \<open>The size reported by the object store\<close>

lemma build_metadata_s3_size:
  assumes "ContentLength resp = Some cl" and "int_of_length e cl = Some n"
    and "fsrc \<noteq> FILE"
  shows "size_bytes (build_metadata e w fsrc hint http_resp (Some resp) data) = Some n"
  using assms by (simp add: build_metadata_def Let_def s3_stage_def)

text \<open>
  C5. Constructing from object storage, when the response's \<open>ContentLength\<close> parses as
  the integer 999, the resolved size is 999 whatever the length of the body: the stat
  stage does not run for an \<open>S3\<close> source and no later stage writes \<open>size\<close>.
\<close>

theorem C5_s3_content_length_stands:
  assumes "s3_get_object w bucket key = Inr resp"
    and "Body resp = Some data"
    and "ContentLength resp = Some cl"
    and "int_of_length e cl = Some 999"
  shows "\<exists>f. from_s3 e w bucket key hint = Inr f \<and> size_bytes (f_metadata f) = Some 999"
  using assms by (simp add: from_s3_def Let_def File_def build_metadata_s3_size)

theorem C5_s3_content_length_stands_witness:
  "s3_get_object sample_world ''bucket'' ''docs/hello.txt'' = Inr sample_s3_response \<and>
   Body sample_s3_response = Some hello_bytes \<and>
   ContentLength sample_s3_response = Some (LenStr ''999'') \<and>
   int_of_length sample_env (LenStr ''999'') = Some 999 \<and>
   int (length hello_bytes) \<noteq> 999 \<and>
   (\<exists>f. from_s3 sample_env sample_world ''bucket'' ''docs/hello.txt'' None = Inr f \<and>
        size_bytes (f_metadata f) = Some 999)"
proof -
  have a: "s3_get_object sample_world ''bucket'' ''docs/hello.txt'' = Inr sample_s3_response"
    by (simp add: sample_world_def)
  have b: "Body sample_s3_response = Some hello_bytes"
    by (simp add: sample_s3_response_def)
  have c: "ContentLength sample_s3_response = Some (LenStr ''999'')"
    by (simp add: sample_s3_response_def)
  have d: "int_of_length sample_env (LenStr ''999'') = Some 999"
    by (simp add: int_of_length_def sample_env_def sample_parse_int_def)
  have l: "int (length hello_bytes) \<noteq> 999" by (simp add: hello_bytes_def)
  show ?thesis using a b c d l C5_s3_content_length_stands [OF a b c d] by blast
qed

section \<open>The bytes scenario\<close>

lemma length_hello: "length hello_bytes = 13"
  by (simp add: hello_bytes_def)

lemma hello_nonempty: "hello_bytes \<noteq> []"
  by (simp add: hello_bytes_def)

lemma detect_ext_hello:
  "guess_type e ''hello.txt'' = Some ''text/plain'' \<Longrightarrow>
   fst (detect_from_extension e ''hello.txt'') = Some ''text/plain''"
  by (simp add: detect_from_extension_def Let_def)

text \<open>
  C8. From the bytes \<open>Hello, world!\<close> with the hint \<open>{name: "hello.txt"}\<close>, when the
  sniffer finds no match and the MIME table maps \<open>hello.txt\<close> to \<open>text/plain\<close> and
  \<open>text/plain\<close> to \<open>.txt\<close>: size 13, MIME type \<open>text/plain\<close>, extension \<open>txt\<close>.
\<close>

theorem C8_hello_scenario:
  assumes "detect_from_bytes e hello_bytes = (None, None)"
    and "guess_type e ''hello.txt'' = Some ''text/plain''"
    and "guess_extension e ''text/plain'' = Some ''.txt''"
  shows "size_bytes (f_metadata (from_bytes e w hello_bytes
            (Some (empty_hint\<lparr>name := Some ''hello.txt''\<rparr>)))) = Some 13 \<and>
         mime_type (f_metadata (from_bytes e w hello_bytes
            (Some (empty_hint\<lparr>name := Some ''hello.txt''\<rparr>)))) = Some ''text/plain'' \<and>
         extension (f_metadata (from_bytes e w hello_bytes
            (Some (empty_hint\<lparr>name := Some ''hello.txt''\<rparr>)))) = Some ''txt''"
proof -
  let ?h = "empty_hint\<lparr>name := Some ''hello.txt'', size_bytes := Some 13\<rparr>"
  let ?m0 = "\<lparr>name = Some ''hello.txt'', mime_type = None, size_bytes = Some 13,
              extension = None, url = None, path = None, hash = None,
              last_modified = None, created_at = None\<rparr>"
  have h0: "metadata.truncate ?h = ?m0" and r0: "response ?h = None"
    by (simp_all add: empty_hint_def metadata.truncate_def)
  have m4: "name_mime_stage e ?m0 = ?m0\<lparr>mime_type := Some ''text/plain''\<rparr>"
    using detect_ext_hello [OF assms(2)]
    by (simp add: name_mime_stage_def Let_def)
  have m5: "magic_stage e (Some hello_bytes) m = m" for m
    using assms(1) by (simp add: magic_stage_def Let_def)
  have m6: "ext_fallback_stage e (?m0\<lparr>mime_type := Some ''text/plain''\<rparr>)
            = ?m0\<lparr>mime_type := Some ''text/plain'', extension := Some ''.txt''\<rparr>"
    using assms(3)
    by (simp add: ext_fallback_stage_def extension_from_mime_def Let_def)
  have m7: "normalise_stage (?m0\<lparr>mime_type := Some ''text/plain'', extension := Some ''.txt''\<rparr>)
            = ?m0\<lparr>mime_type := Some ''text/plain'', extension := Some ''txt''\<rparr>"
    by (simp add: normalise_stage_def startswith_def)
  have bm: "build_metadata e w BYTES (Some ?h) None None (Some hello_bytes)
            = ?m0\<lparr>mime_type := Some ''text/plain'', extension := Some ''txt''\<rparr>"
    unfolding build_metadata_def Let_def hint_or_empty_def
    by (simp only: option.case h0 r0 m4 m5 m6 m7 file_source.distinct simp_thms if_False)
  have fb: "f_metadata (from_bytes e w hello_bytes (Some (empty_hint\<lparr>name := Some ''hello.txt''\<rparr>)))
            = build_metadata e w BYTES (Some ?h) None None (Some hello_bytes)"
    by (simp add: from_bytes_def File_def Let_def hint_or_empty_def length_hello)
  show ?thesis
    unfolding fb bm by simp
qed


lemma splitext_hello: "splitext ''hello.txt'' = (''hello'', ''.txt'')"
  by code_simp

theorem C8_hello_scenario_witness:
  "detect_from_bytes sample_env hello_bytes = (None, None) \<and>
   guess_type sample_env ''hello.txt'' = Some ''text/plain'' \<and>
   guess_extension sample_env ''text/plain'' = Some ''.txt'' \<and>
   size_bytes (f_metadata (from_bytes sample_env sample_world hello_bytes
            (Some (empty_hint\<lparr>name := Some ''hello.txt''\<rparr>)))) = Some 13 \<and>
   mime_type (f_metadata (from_bytes sample_env sample_world hello_bytes
            (Some (empty_hint\<lparr>name := Some ''hello.txt''\<rparr>)))) = Some ''text/plain'' \<and>
   extension (f_metadata (from_bytes sample_env sample_world hello_bytes
            (Some (empty_hint\<lparr>name := Some ''hello.txt''\<rparr>)))) = Some ''txt''"
proof -
  have a: "detect_from_bytes sample_env hello_bytes = (None, None)"
    by (rule sample_detect_hello)
  have b: "guess_type sample_env ''hello.txt'' = Some ''text/plain''"
    by (simp add: sample_env_def splitext_hello)
  have c: "guess_extension sample_env ''text/plain'' = Some ''.txt''"
    by (simp add: sample_env_def)
  show ?thesis using a b c C8_hello_scenario [OF a b c, of sample_world] by blast
qed

section \<open>The size of buffered and streamed sources\<close>

lemma http_stage_size:
  "size_bytes (http_stage e r m) =
     (case headers r ''content-length'' of
        None \<Rightarrow> size_bytes m
      | Some c \<Rightarrow> (case parse_int e c of Some n \<Rightarrow> Some n | None \<Rightarrow> size_bytes m))"
  by (simp add: http_stage_def Let_def)

lemma http_stage_last_modified:
  "last_modified (http_stage e r m) =
     (if truthy (headers r ''last-modified'') then
        (case parse_http_date e (str_or_empty (headers r ''last-modified'')) of
           Some d \<Rightarrow> Some d
         | None \<Rightarrow> last_modified m)
      else last_modified m)"
  by (simp add: http_stage_def Let_def)

lemma http_stage_size_unparsed:
  "\<forall>cl. headers r ''content-length'' = Some cl \<longrightarrow> parse_int e cl = None \<Longrightarrow>
   size_bytes (http_stage e r m) = size_bytes m"
  by (simp add: http_stage_size split: option.splits)


lemma build_metadata_size_no_file:
  assumes "fsrc \<noteq> FILE"
  shows "size_bytes (build_metadata e w fsrc (Some h) None None data)
         = (case response h of
              None \<Rightarrow> size_bytes h
            | Some r \<Rightarrow>
                (case headers r ''content-length'' of
                   None \<Rightarrow> size_bytes h
                 | Some c \<Rightarrow> (case parse_int e c of Some n \<Rightarrow> Some n | None \<Rightarrow> size_bytes h)))"
proof (cases "response h")
  case None
  then show ?thesis using assms
    by (simp add: build_metadata_def hint_or_empty_def Let_def)
next
  case (Some r)
  then show ?thesis using assms
    by (simp add: build_metadata_def hint_or_empty_def Let_def http_stage_size
        split: option.splits)
qed


lemma from_stream_cases:
  "from_stream e w strm hint = Inr g \<Longrightarrow>
   \<exists>d. g = File STREAM (build_metadata e w STREAM
        (Some ((hint_or_empty hint)\<lparr>size_bytes := Some (int (length d))\<rparr>))
        None None (Some d)) (Some d) None"
  by (cases strm) (auto simp: from_stream_def Let_def)


lemma from_stream_ignores_size_hint:
  "from_stream e w strm (Some ((hint_or_empty hint)\<lparr>size_bytes := x\<rparr>))
   = from_stream e w strm hint"
  by (cases strm) (simp_all add: from_stream_def Let_def hint_or_empty_def)

text \<open>
  C10, as stated, fails: the hint may carry a transport response, whose
  \<open>content-length\<close> header the header stage writes over the observed length.
\<close>

theorem C10_size_hint_counterexample:
  "size_bytes (f_metadata (from_bytes sample_env sample_world [1, 2, 3]
      (Some (empty_hint\<lparr>response :=
          Some \<lparr>headers = [''content-length'' \<mapsto> ''999''], content = []\<rparr>\<rparr>)))) = Some 999"
proof -
  let ?r = "\<lparr>headers = [''content-length'' \<mapsto> ''999''], content = []\<rparr>"
  have p: "parse_int sample_env ''999'' = Some 999"
    by (simp add: sample_env_def sample_parse_int_def)
  have "size_bytes (http_stage sample_env ?r m) = Some 999" for m
    using p by (simp add: http_stage_def Let_def)
  then show ?thesis
    by (simp add: from_bytes_def File_def build_metadata_def hint_or_empty_def empty_hint_def
        metadata.truncate_def Let_def)
qed

text \<open>
  C10, amended. For \<open>from_bytes\<close> and \<open>from_stream\<close>, when the hint carries no transport
  response whose \<open>content-length\<close> header parses as an integer, the resolved size is
  the byte length of the materialized data; and a size supplied in the hint never
  reaches the cascade: replacing it by any other value leaves the result the same.
\<close>

theorem C10_size_is_observed_length:
  assumes "\<forall>r cl. response (hint_or_empty hint) = Some r \<longrightarrow>
             headers r ''content-length'' = Some cl \<longrightarrow> parse_int e cl = None"
    and "from_stream e w strm hint = Inr g"
  shows "size_bytes (f_metadata (from_bytes e w data hint)) = Some (int (length data)) \<and>
         (\<exists>d. f_bytes g = Some d \<and> size_bytes (f_metadata g) = Some (int (length d))) \<and>
         from_bytes e w data (Some ((hint_or_empty hint)\<lparr>size_bytes := x\<rparr>))
           = from_bytes e w data hint \<and>
         from_stream e w strm (Some ((hint_or_empty hint)\<lparr>size_bytes := x\<rparr>)) = Inr g"
proof -
  have sz: "size_bytes (build_metadata e w fsrc
              (Some ((hint_or_empty hint)\<lparr>size_bytes := Some n\<rparr>)) None None d) = Some n"
    if "fsrc \<noteq> FILE" for fsrc n d
    using assms(1) build_metadata_size_no_file [OF that, of e w "(hint_or_empty hint)\<lparr>size_bytes := Some n\<rparr>" d]
    by (auto split: option.splits)
  have 1: "size_bytes (f_metadata (from_bytes e w data hint)) = Some (int (length data))"
    by (simp add: from_bytes_def File_def Let_def sz)
  obtain d where g: "g = File STREAM (build_metadata e w STREAM
        (Some ((hint_or_empty hint)\<lparr>size_bytes := Some (int (length d))\<rparr>))
        None None (Some d)) (Some d) None"
    using from_stream_cases [OF assms(2)] by blast
  have 2: "\<exists>d. f_bytes g = Some d \<and> size_bytes (f_metadata g) = Some (int (length d))"
    by (simp add: g File_def sz)
  have 3: "from_bytes e w data (Some ((hint_or_empty hint)\<lparr>size_bytes := x\<rparr>))
           = from_bytes e w data hint"
    by (simp add: from_bytes_def Let_def hint_or_empty_def)
  have 4: "from_stream e w strm (Some ((hint_or_empty hint)\<lparr>size_bytes := x\<rparr>)) = Inr g"
    using assms(2) by (simp add: from_stream_ignores_size_hint)
  show ?thesis using 1 2 3 4 by blast
qed

theorem C10_size_is_observed_length_witness:
  "response (hint_or_empty (Some (empty_hint\<lparr>size_bytes := Some 42\<rparr>))) = None \<and>
   size_bytes (f_metadata (from_bytes sample_env sample_world hello_bytes
        (Some (empty_hint\<lparr>size_bytes := Some 42\<rparr>)))) = Some 13 \<and>
   (\<exists>g. from_stream sample_env sample_world (AsyncIterator [hello_bytes, hello_bytes])
          (Some (empty_hint\<lparr>size_bytes := Some 42\<rparr>)) = Inr g \<and>
        size_bytes (f_metadata g) = Some 26)"
proof -
  let ?hint = "Some (empty_hint\<lparr>size_bytes := Some 42\<rparr>)"
  let ?strm = "AsyncIterator [hello_bytes, hello_bytes]"
  have a: "\<forall>r cl. response (hint_or_empty ?hint) = Some r \<longrightarrow>
        headers r ''content-length'' = Some cl \<longrightarrow> parse_int sample_env cl = None"
    by (simp add: hint_or_empty_def empty_hint_def)
  obtain g where b: "from_stream sample_env sample_world ?strm ?hint = Inr g"
    by (simp add: from_stream_def Let_def)
  have c: "f_bytes g = Some (hello_bytes @ hello_bytes)"
    using b by (auto simp: from_stream_def Let_def File_def)
  have l: "length hello_bytes = 13" by (simp add: hello_bytes_def)
  from C10_size_is_observed_length [OF a b, of hello_bytes]
  have "size_bytes (f_metadata (from_bytes sample_env sample_world hello_bytes ?hint))
          = Some (int (length hello_bytes))"
    and "\<exists>d. f_bytes g = Some d \<and> size_bytes (f_metadata g) = Some (int (length d))"
    by blast+
  moreover have "response (hint_or_empty ?hint) = None"
    by (simp add: hint_or_empty_def empty_hint_def)
  ultimately show ?thesis using b c l by auto
qed

section \<open>Absorbed parse failures\<close>

lemma s3_stage_size:
  "size_bytes (s3_stage e r m) =
     (case ContentLength r of
        None \<Rightarrow> size_bytes m
      | Some c \<Rightarrow> (case int_of_length e c of Some n \<Rightarrow> Some n | None \<Rightarrow> size_bytes m))"
  by (simp add: s3_stage_def Let_def)

lemma s3_stage_last_modified:
  "last_modified (s3_stage e r m) =
     (case LastModified r of
        None \<Rightarrow> last_modified m
      | Some (TimeDatetime d) \<Rightarrow> Some d
      | Some (TimeStr s) \<Rightarrow>
          (if s = [] then last_modified m
           else case parse_http_date e s of
                  Some d \<Rightarrow> Some d
                | None \<Rightarrow> last_modified m))"
  by (simp add: s3_stage_def Let_def)

lemma build_metadata_url_source:
  assumes "fsrc \<noteq> FILE"
  shows "size_bytes (build_metadata e w fsrc (Some h) (Some r) None data)
           = size_bytes (http_stage e r (metadata.truncate h))"
    and "last_modified (build_metadata e w fsrc (Some h) (Some r) None data)
           = last_modified (http_stage e r (metadata.truncate h))"
  using assms by (simp_all add: build_metadata_def hint_or_empty_def Let_def)

lemma build_metadata_s3_source:
  assumes "response h = None"
  shows "size_bytes (build_metadata e w S3 (Some h) None (Some r) data)
           = size_bytes (s3_stage e r (metadata.truncate h))"
    and "last_modified (build_metadata e w S3 (Some h) None (Some r) data)
           = last_modified (s3_stage e r (metadata.truncate h))"
  using assms by (simp_all add: build_metadata_def hint_or_empty_def Let_def)

lemma http_size_absorbed:
  "headers resp ''content-length'' = Some cl \<Longrightarrow> parse_int e cl = None \<Longrightarrow>
   size_bytes (http_stage e resp m) = size_bytes m"
  by (simp add: http_stage_size)

lemma http_date_absorbed:
  "headers resp ''last-modified'' = Some lm \<Longrightarrow> parse_http_date e lm = None \<Longrightarrow>
   last_modified (http_stage e resp m) = last_modified m"
  by (simp add: http_stage_last_modified)

lemma s3_size_absorbed:
  "ContentLength s3r = Some scl \<Longrightarrow> int_of_length e scl = None \<Longrightarrow>
   size_bytes (s3_stage e s3r m) = size_bytes m"
  by (simp add: s3_stage_size)

lemma s3_date_absorbed:
  "LastModified s3r = Some (TimeStr slm) \<Longrightarrow> parse_http_date e slm = None \<Longrightarrow>
   last_modified (s3_stage e s3r m) = last_modified m"
  by (simp add: s3_stage_last_modified)

lemma from_url_absorbs:
  assumes "http_get w u = Inr resp"
  shows "\<exists>f. from_url e w u hint = Inr f \<and>
           (headers resp ''content-length'' = Some cl \<and> parse_int e cl = None \<longrightarrow>
              size_bytes (f_metadata f) = size_bytes (hint_or_empty hint)) \<and>
           (headers resp ''last-modified'' = Some lm \<and> parse_http_date e lm = None \<longrightarrow>
              last_modified (f_metadata f) = last_modified (hint_or_empty hint))"
  using assms
  by (simp add: from_url_def Let_def File_def build_metadata_url_source
      http_size_absorbed http_date_absorbed)

lemma from_s3_absorbs:
  assumes "s3_get_object w b k = Inr s3r" and "Body s3r = Some body"
    and "response (hint_or_empty hint) = None"
  shows "\<exists>f. from_s3 e w b k hint = Inr f \<and>
           (ContentLength s3r = Some scl \<and> int_of_length e scl = None \<longrightarrow>
              size_bytes (f_metadata f) = size_bytes (hint_or_empty hint)) \<and>
           (LastModified s3r = Some (TimeStr slm) \<and> parse_http_date e slm = None \<longrightarrow>
              last_modified (f_metadata f) = last_modified (hint_or_empty hint))"
  using assms
  by (simp add: from_s3_def Let_def File_def build_metadata_s3_source
      s3_size_absorbed s3_date_absorbed)

text \<open>
  C9. Each failure is absorbed on its own, whatever the other attributes of the
  response are. A \<open>content-length\<close> that does not parse as an integer leaves
  \<open>size\<close> as it was, and a \<open>last-modified\<close> string that does not parse leaves
  \<open>last_modified\<close> as it was, in the header stage and in the object-store stage alike.
  The failures do not leave the resolver: \<open>from_url\<close> returns an entity for every
  response the transport delivers, and \<open>from_s3\<close> for every response with a body; the
  entity's size, respectively timestamp, is the hint's when the attribute does not parse
  (for \<open>from_s3\<close>, when the hint carries no transport response of its own, whose
  header stage would run first).
\<close>

theorem C9_parse_failures_absorbed:
  "(headers resp ''content-length'' = Some cl \<and> parse_int e cl = None \<longrightarrow>
      size_bytes (http_stage e resp m) = size_bytes m) \<and>
   (headers resp ''last-modified'' = Some lm \<and> parse_http_date e lm = None \<longrightarrow>
      last_modified (http_stage e resp m) = last_modified m) \<and>
   (ContentLength s3r = Some scl \<and> int_of_length e scl = None \<longrightarrow>
      size_bytes (s3_stage e s3r m) = size_bytes m) \<and>
   (LastModified s3r = Some (TimeStr slm) \<and> parse_http_date e slm = None \<longrightarrow>
      last_modified (s3_stage e s3r m) = last_modified m) \<and>
   (http_get w u = Inr resp \<longrightarrow>
      (\<exists>f. from_url e w u hint = Inr f \<and>
         (headers resp ''content-length'' = Some cl \<and> parse_int e cl = None \<longrightarrow>
            size_bytes (f_metadata f) = size_bytes (hint_or_empty hint)) \<and>
         (headers resp ''last-modified'' = Some lm \<and> parse_http_date e lm = None \<longrightarrow>
            last_modified (f_metadata f) = last_modified (hint_or_empty hint)))) \<and>
   (s3_get_object w b k = Inr s3r \<and> Body s3r = Some body \<and>
    response (hint_or_empty hint) = None \<longrightarrow>
      (\<exists>f. from_s3 e w b k hint = Inr f \<and>
         (ContentLength s3r = Some scl \<and> int_of_length e scl = None \<longrightarrow>
            size_bytes (f_metadata f) = size_bytes (hint_or_empty hint)) \<and>
         (LastModified s3r = Some (TimeStr slm) \<and> parse_http_date e slm = None \<longrightarrow>
            last_modified (f_metadata f) = last_modified (hint_or_empty hint))))"
proof (intro conjI impI)
  show "size_bytes (http_stage e resp m) = size_bytes m"
    if "headers resp ''content-length'' = Some cl \<and> parse_int e cl = None"
    using that by (simp add: http_size_absorbed)
  show "last_modified (http_stage e resp m) = last_modified m"
    if "headers resp ''last-modified'' = Some lm \<and> parse_http_date e lm = None"
    using that by (simp add: http_date_absorbed)
  show "size_bytes (s3_stage e s3r m) = size_bytes m"
    if "ContentLength s3r = Some scl \<and> int_of_length e scl = None"
    using that by (simp add: s3_size_absorbed)
  show "last_modified (s3_stage e s3r m) = last_modified m"
    if "LastModified s3r = Some (TimeStr slm) \<and> parse_http_date e slm = None"
    using that by (simp add: s3_date_absorbed)
  show "\<exists>f. from_url e w u hint = Inr f \<and>
         (headers resp ''content-length'' = Some cl \<and> parse_int e cl = None \<longrightarrow>
            size_bytes (f_metadata f) = size_bytes (hint_or_empty hint)) \<and>
         (headers resp ''last-modified'' = Some lm \<and> parse_http_date e lm = None \<longrightarrow>
            last_modified (f_metadata f) = last_modified (hint_or_empty hint))"
    if "http_get w u = Inr resp"
    using that by (rule from_url_absorbs)
  show "\<exists>f. from_s3 e w b k hint = Inr f \<and>
         (ContentLength s3r = Some scl \<and> int_of_length e scl = None \<longrightarrow>
            size_bytes (f_metadata f) = size_bytes (hint_or_empty hint)) \<and>
         (LastModified s3r = Some (TimeStr slm) \<and> parse_http_date e slm = None \<longrightarrow>
            last_modified (f_metadata f) = last_modified (hint_or_empty hint))"
    if "s3_get_object w b k = Inr s3r \<and> Body s3r = Some body \<and>
        response (hint_or_empty hint) = None"
    using that by (intro from_s3_absorbs) simp_all
qed


theorem C9_parse_failures_absorbed_witness:
  "headers sample_http_response ''content-length'' = Some ''twelve'' \<and>
   parse_int sample_env ''twelve'' = None \<and>
   headers sample_http_response ''last-modified'' = Some ''yesterday'' \<and>
   parse_http_date sample_env ''yesterday'' = None \<and>
   http_get sample_world ''https://example.com/logo'' = Inr sample_http_response \<and>
   size_bytes (http_stage sample_env sample_http_response
      (metadata.truncate (empty_hint\<lparr>size_bytes := Some 7\<rparr>))) = Some 7 \<and>
   size_bytes (s3_stage sample_env
      \<lparr>Body = None, ContentDisposition = None, ContentType = None,
       ContentLength = Some (LenStr ''abc''), ETag = None, LastModified = None\<rparr>
      (metadata.truncate (empty_hint\<lparr>size_bytes := Some 7\<rparr>))) = Some 7 \<and>
   (\<exists>f. from_url sample_env sample_world ''https://example.com/logo''
          (Some (empty_hint\<lparr>size_bytes := Some 7, last_modified := Some 3\<rparr>)) = Inr f \<and>
        size_bytes (f_metadata f) = Some 7 \<and> last_modified (f_metadata f) = Some 3)"
proof -
  let ?s3r = "\<lparr>Body = None, ContentDisposition = None, ContentType = None,
               ContentLength = Some (LenStr ''abc''), ETag = None,
               LastModified = None\<rparr>"
  let ?m = "metadata.truncate (empty_hint\<lparr>size_bytes := Some 7\<rparr>)"
  let ?hint = "Some (empty_hint\<lparr>size_bytes := Some 7, last_modified := Some 3\<rparr>)"
  have a: "http_get sample_world ''https://example.com/logo'' = Inr sample_http_response"
    by (simp add: sample_world_def)
  have b: "headers sample_http_response ''content-length'' = Some ''twelve''"
    by (simp add: sample_http_response_def)
  have c: "parse_int sample_env ''twelve'' = None"
    by (simp add: sample_env_def sample_parse_int_def)
  have d: "headers sample_http_response ''last-modified'' = Some ''yesterday''"
    by (simp add: sample_http_response_def)
  have e: "parse_http_date sample_env ''yesterday'' = None"
    by (simp add: parse_http_date_def sample_env_def)
  have f: "ContentLength ?s3r = Some (LenStr ''abc'')" by simp
  have g: "int_of_length sample_env (LenStr ''abc'') = None"
    by (simp add: int_of_length_def sample_env_def sample_parse_int_def)
  have hs: "size_bytes (hint_or_empty ?hint) = Some 7"
    "last_modified (hint_or_empty ?hint) = Some 3"
    by (simp_all add: hint_or_empty_def)
  have ms: "size_bytes ?m = Some 7" by simp
  note T = C9_parse_failures_absorbed [where ?resp = sample_http_response and ?cl = "''twelve''"
      and ?e = sample_env and ?lm = "''yesterday''" and ?m = ?m and ?s3r = ?s3r
      and ?scl = "LenStr ''abc''" and ?slm = "''soon''" and ?w = sample_world
      and ?u = "''https://example.com/logo''" and ?hint = ?hint
      and ?b = "''bucket''" and ?k = "''none''" and ?body = "[]"]
  have t1: "size_bytes (http_stage sample_env sample_http_response ?m) = size_bytes ?m"
    using T [THEN conjunct1] b c by simp
  have t3: "size_bytes (s3_stage sample_env ?s3r ?m) = size_bytes ?m"
    using T [THEN conjunct2, THEN conjunct2, THEN conjunct1] f g by simp
  from T [THEN conjunct2, THEN conjunct2, THEN conjunct2, THEN conjunct2, THEN conjunct1] a
  have "\<exists>fl. from_url sample_env sample_world ''https://example.com/logo'' ?hint = Inr fl \<and>
    (headers sample_http_response ''content-length'' = Some ''twelve'' \<and>
       parse_int sample_env ''twelve'' = None \<longrightarrow>
       size_bytes (f_metadata fl) = size_bytes (hint_or_empty ?hint)) \<and>
    (headers sample_http_response ''last-modified'' = Some ''yesterday'' \<and>
       parse_http_date sample_env ''yesterday'' = None \<longrightarrow>
       last_modified (f_metadata fl) = last_modified (hint_or_empty ?hint))"
    by (rule mp)
  then obtain fl where t5:
    "from_url sample_env sample_world ''https://example.com/logo'' ?hint = Inr fl"
    "headers sample_http_response ''content-length'' = Some ''twelve'' \<and>
       parse_int sample_env ''twelve'' = None \<longrightarrow>
       size_bytes (f_metadata fl) = size_bytes (hint_or_empty ?hint)"
    "headers sample_http_response ''last-modified'' = Some ''yesterday'' \<and>
       parse_http_date sample_env ''yesterday'' = None \<longrightarrow>
       last_modified (f_metadata fl) = last_modified (hint_or_empty ?hint)"
    by (elim exE conjE)
  have t6: "size_bytes (f_metadata fl) = Some 7" using t5(2) b c hs(1) by simp
  have t7: "last_modified (f_metadata fl) = Some 3" using t5(3) d e hs(2) by simp
  have t1': "size_bytes (http_stage sample_env sample_http_response ?m) = Some 7"
    using t1 ms by simp
  have t3': "size_bytes (s3_stage sample_env ?s3r ?m) = Some 7"
    using t3 ms by simp
  show ?thesis
    using a b c d e t1' t3' t5(1) t6 t7 by (intro conjI exI) assumption+
qed

section \<open>The object-store locator\<close>

lemma replace_first_prefix:
  assumes "old \<noteq> []"
  shows "replace_first old new (old @ rest) = new @ rest"
proof -
  from assms obtain c cs where o: "old = c # cs" by (cases old) auto
  have "replace_first (c # cs) new (c # (cs @ rest)) = new @ rest" by simp
  then show ?thesis by (simp add: o)
qed

lemma takeWhile_until:
  "sep \<notin> set b \<Longrightarrow> takeWhile (\<lambda>c. c \<noteq> sep) (b @ sep # k) = b"
  by (induction b) auto

lemma dropWhile_until:
  "sep \<notin> set b \<Longrightarrow> dropWhile (\<lambda>c. c \<noteq> sep) (b @ sep # k) = sep # k"
  by (induction b) auto

lemma split_once_first:
  "sep \<notin> set b \<Longrightarrow> split_once sep (b @ sep # k) = [b, k]"
  by (simp add: split_once_def takeWhile_until dropWhile_until)

lemma parse_s3_url_canonical:
  assumes "CHR ''/'' \<notin> set b"
  shows "parse_s3_url (''s3://'' @ b @ ''/'' @ k) = Inr (b, k)"
proof -
  have "replace_first ''s3://'' [] (''s3://'' @ (b @ ''/'' @ k)) = [] @ (b @ ''/'' @ k)"
    by (rule replace_first_prefix) simp
  then have r: "replace_first ''s3://'' [] (''s3://'' @ b @ ''/'' @ k) = b @ CHR ''/'' # k"
    by simp
  show ?thesis
    unfolding parse_s3_url_def Let_def r
    by (simp add: split_once_first [OF assms])
qed

lemma build_metadata_url:
  "url (build_metadata e w fsrc (Some h) hr sr d) = url h"
  by (simp add: build_metadata_def hint_or_empty_def Let_def split: option.splits)

text \<open>
  C7. An entity built from bucket \<open>b\<close> (without \<open>/\<close>) and key \<open>k\<close> stores the locator
  \<open>s3://b/k\<close> in \<open>url\<close>, whatever the hint says, and \<open>_parse_s3_url\<close> recovers
  \<open>(b, k)\<close> from it.
\<close>

theorem C7_s3_url_round_trip:
  assumes "from_s3 e w b k hint = Inr f"
    and "CHR ''/'' \<notin> set b" and "k \<noteq> []"
  shows "url (f_metadata f) = Some (''s3://'' @ b @ ''/'' @ k) \<and>
         parse_s3_url (''s3://'' @ b @ ''/'' @ k) = Inr (b, k)"
proof -
  have "url (f_metadata f) = Some (''s3://'' @ b @ ''/'' @ k)"
    using assms(1)
    by (auto simp: from_s3_def Let_def File_def build_metadata_url
        split: sum.splits option.splits)
  then show ?thesis using parse_s3_url_canonical [OF assms(2)] by simp
qed

theorem C7_s3_url_round_trip_witness:
  "CHR ''/'' \<notin> set ''bucket'' \<and> ''docs/hello.txt'' \<noteq> [] \<and>
   (\<exists>f. from_s3 sample_env sample_world ''bucket'' ''docs/hello.txt'' None = Inr f \<and>
        url (f_metadata f) = Some ''s3://bucket/docs/hello.txt'') \<and>
   parse_s3_url ''s3://bucket/docs/hello.txt'' = Inr (''bucket'', ''docs/hello.txt'')"
proof -
  obtain f where a: "from_s3 sample_env sample_world ''bucket'' ''docs/hello.txt'' None = Inr f"
    by (simp add: from_s3_def sample_world_def sample_s3_response_def Let_def)
  have b: "CHR ''/'' \<notin> set ''bucket''" by simp
  have c: "''docs/hello.txt'' \<noteq> []" by simp
  show ?thesis using a b c C7_s3_url_round_trip [OF a b c] by simp
qed

section \<open>Mutation is for local files\<close>

text \<open>
  C4. On an entity whose source is not \<open>FILE\<close>, \<open>append\<close>, \<open>prepend\<close> and \<open>truncate\<close>
  raise the \<open>RuntimeError\<close> that reports the invalid source (the specification's
  \<open>InvalidSourceOperation\<close>), and the world and the entity (source, metadata, buffer,
  stream) after the call are those before it.
\<close>

theorem C4_mutation_needs_file_source:
  assumes "f_source f \<noteq> FILE"
  shows "append e c (w, f) = (Inl (RuntimeError ''Cannot append to non-file source''), w, f) \<and>
         prepend e c (w, f) = (Inl (RuntimeError ''Cannot prepend to non-file source''), w, f) \<and>
         truncate e n (w, f) = (Inl (RuntimeError ''Cannot truncate non-file source''), w, f)"
  using assms by (simp add: append_def prepend_def truncate_def)

lemma sample_from_bytes_source:
  "f_source (from_bytes sample_env sample_world hello_bytes None) = BYTES"
  by (simp add: from_bytes_def File_def Let_def)

theorem C4_mutation_needs_file_source_witness:
  "f_source (from_bytes sample_env sample_world hello_bytes None) \<noteq> FILE \<and>
   fst (append sample_env (Str ''more'')
         (sample_world, from_bytes sample_env sample_world hello_bytes None))
     = Inl (RuntimeError ''Cannot append to non-file source'') \<and>
   snd (snd (append sample_env (Str ''more'')
         (sample_world, from_bytes sample_env sample_world hello_bytes None)))
     = from_bytes sample_env sample_world hello_bytes None \<and>
   snd (snd (prepend sample_env (Str ''before'')
         (sample_world, from_bytes sample_env sample_world hello_bytes None)))
     = from_bytes sample_env sample_world hello_bytes None \<and>
   snd (snd (truncate sample_env 1
         (sample_world, from_bytes sample_env sample_world hello_bytes None)))
     = from_bytes sample_env sample_world hello_bytes None"
proof -
  have a: "f_source (from_bytes sample_env sample_world hello_bytes None) \<noteq> FILE"
    by (simp add: sample_from_bytes_source)
  show ?thesis
    using a C4_mutation_needs_file_source [OF a, of sample_env "Str ''more''" sample_world 1]
      C4_mutation_needs_file_source [OF a, of sample_env "Str ''before''" sample_world 1]
    by simp
qed


section \<open>Reading back what was constructed\<close>

lemma read_buffered:
  "read (File fsrc md (Some d) strm) = (d, File fsrc md (Some d) strm)"
  by (simp add: read_def File_def)

lemma read_chunks_concat:
  "concat (read_chunks remaining chunks) = concat chunks @ remaining"
proof (induction remaining chunks rule: read_chunks.induct)
  case (1 remaining chunks)
  show ?case
  proof (cases "take 65536 remaining = []")
    case True
    then have "remaining = []" by simp
    then show ?thesis by (simp add: read_chunks.simps [of "[]" chunks])
  next
    case False
    then have "read_chunks remaining chunks
               = read_chunks (drop 65536 remaining) (chunks @ [take 65536 remaining])"
      by (subst read_chunks.simps) (simp add: Let_def)
    moreover have "concat (read_chunks (drop 65536 remaining) (chunks @ [take 65536 remaining]))
               = concat (chunks @ [take 65536 remaining]) @ drop 65536 remaining"
      using False by (intro "1.IH") simp_all
    ultimately show ?thesis by simp
  qed
qed

lemma read_chunks_all: "concat (read_chunks b []) = b"
  by (simp add: read_chunks_concat)

text \<open>
  C2. For each of the five source variants (bytes, URL, file, stream, S3), a
  successfully constructed entity returns on \<open>read\<close> exactly the bytes the
  backend supplied: the passed byte string, the downloaded body, the content on
  disk, the concatenation of the stream's chunks (an async iterator) or
  everything a file-like object yields in 64 KiB reads, and the object-storage
  body.  A second \<open>read\<close> on the entity left by the first returns the same bytes.
  Each variant stands under the hypothesis of its own backend only; the bytes and
  stream variants need none.
\<close>

theorem C2_read_round_trip:
  "(fst (read (from_bytes e w data h1)) = data \<and>
    fst (read (snd (read (from_bytes e w data h1)))) = data) \<and>
   (http_get w u = Inr resp \<longrightarrow>
      (\<exists>f. from_url e w u h2 = Inr f \<and> fst (read f) = content resp \<and>
           fst (read (snd (read f))) = content resp)) \<and>
   (fs w (abspath e p) = Some node \<longrightarrow>
      (\<exists>f. from_file e w p h3 = Inr f \<and> fst (read f) = node_content node \<and>
           fst (read (snd (read f))) = node_content node)) \<and>
   (\<exists>f. from_stream e w (AsyncIterator cs) h4 = Inr f \<and> fst (read f) = concat cs \<and>
        fst (read (snd (read f))) = concat cs) \<and>
   (\<exists>f. from_stream e w (FileLike d) h4 = Inr f \<and> fst (read f) = d \<and>
        fst (read (snd (read f))) = d) \<and>
   (s3_get_object w b k = Inr s3r \<and> Body s3r = Some body \<longrightarrow>
      (\<exists>f. from_s3 e w b k h5 = Inr f \<and> fst (read f) = body \<and>
           fst (read (snd (read f))) = body))"
proof -
  have r1: "fst (read (from_bytes e w data h1)) = data \<and>
          fst (read (snd (read (from_bytes e w data h1)))) = data"
    by (simp add: from_bytes_def Let_def read_buffered)
  have r2: "\<exists>f. from_url e w u h2 = Inr f \<and> fst (read f) = content resp \<and>
              fst (read (snd (read f))) = content resp"
    if "http_get w u = Inr resp"
    using that by (simp add: from_url_def Let_def read_buffered)
  have r3: "\<exists>f. from_file e w p h3 = Inr f \<and> fst (read f) = node_content node \<and>
              fst (read (snd (read f))) = node_content node"
    if "fs w (abspath e p) = Some node"
    using that by (simp add: from_file_def Let_def read_buffered)
  have r4: "\<exists>f. from_stream e w (AsyncIterator cs) h4 = Inr f \<and> fst (read f) = concat cs \<and>
              fst (read (snd (read f))) = concat cs"
    by (simp add: from_stream_def Let_def read_buffered)
  have r5: "\<exists>f. from_stream e w (FileLike d) h4 = Inr f \<and> fst (read f) = d \<and>
              fst (read (snd (read f))) = d"
    by (simp add: from_stream_def Let_def read_buffered read_chunks_all)
  have r6: "\<exists>f. from_s3 e w b k h5 = Inr f \<and> fst (read f) = body \<and>
              fst (read (snd (read f))) = body"
    if "s3_get_object w b k = Inr s3r \<and> Body s3r = Some body"
    using that by (simp add: from_s3_def Let_def read_buffered)
  show ?thesis using r1 r2 r3 r4 r5 r6 by (intro conjI impI) blast+
qed

theorem C2_read_round_trip_witness:
  "http_get sample_world ''https://example.com/logo'' = Inr sample_http_response \<and>
   fs sample_world (abspath sample_env ''/tmp/hello.txt'')
     = Some \<lparr>node_content = hello_bytes, st_mtime = 5, st_ctime = 4\<rparr> \<and>
   s3_get_object sample_world ''bucket'' ''docs/hello.txt'' = Inr sample_s3_response \<and>
   Body sample_s3_response = Some hello_bytes \<and>
   fst (read (from_bytes sample_env sample_world hello_bytes None)) = hello_bytes \<and>
   (\<exists>f. from_url sample_env sample_world ''https://example.com/logo'' None = Inr f \<and>
        fst (read f) = png_signature) \<and>
   (\<exists>f. from_file sample_env sample_world ''/tmp/hello.txt'' None = Inr f \<and>
        fst (read f) = hello_bytes) \<and>
   (\<exists>f. from_stream sample_env sample_world (AsyncIterator [hello_bytes, png_signature]) None
          = Inr f \<and> fst (read f) = hello_bytes @ png_signature) \<and>
   (\<exists>f. from_stream sample_env sample_world (FileLike hello_bytes) None = Inr f \<and>
        fst (read f) = hello_bytes) \<and>
   (\<exists>f. from_s3 sample_env sample_world ''bucket'' ''docs/hello.txt'' None = Inr f \<and>
        fst (read f) = hello_bytes)"
proof -
  let ?node = "\<lparr>node_content = hello_bytes, st_mtime = 5, st_ctime = 4\<rparr>"
  have a: "http_get sample_world ''https://example.com/logo'' = Inr sample_http_response"
    by (simp add: sample_world_def)
  have b: "fs sample_world (abspath sample_env ''/tmp/hello.txt'') = Some ?node"
    by (simp add: sample_world_def sample_env_def)
  have c: "s3_get_object sample_world ''bucket'' ''docs/hello.txt'' = Inr sample_s3_response"
    by (simp add: sample_world_def)
  have d: "Body sample_s3_response = Some hello_bytes"
    by (simp add: sample_s3_response_def)
  have r: "content sample_http_response = png_signature"
    by (simp add: sample_http_response_def)
  note T = C2_read_round_trip [where ?e = sample_env and ?w = sample_world
      and ?u = "''https://example.com/logo''" and ?resp = sample_http_response
      and ?p = "''/tmp/hello.txt''" and ?node = ?node
      and ?b = "''bucket''" and ?k = "''docs/hello.txt''" and ?s3r = sample_s3_response
      and ?body = hello_bytes
      and ?data = hello_bytes and ?h1.0 = None
      and ?h2.0 = None and ?h3.0 = None and ?cs = "[hello_bytes, png_signature]"
      and ?h4.0 = None and ?d = hello_bytes and ?h5.0 = None]
  note T2 = T [THEN conjunct2]
  note T3 = T2 [THEN conjunct2]
  note T4 = T3 [THEN conjunct2]
  note T5 = T4 [THEN conjunct2]
  note T6 = T5 [THEN conjunct2]
  from T [THEN conjunct1]
  have t1: "fst (read (from_bytes sample_env sample_world hello_bytes None)) = hello_bytes"
    by (elim conjE)
  from T2 [THEN conjunct1, THEN mp, OF a] obtain f2 where t2:
    "from_url sample_env sample_world ''https://example.com/logo'' None = Inr f2"
    "fst (read f2) = content sample_http_response"
    by (elim conjE exE)
  from T3 [THEN conjunct1, THEN mp, OF b] obtain f3 where t3:
    "from_file sample_env sample_world ''/tmp/hello.txt'' None = Inr f3"
    "fst (read f3) = node_content ?node"
    by (elim conjE exE)
  from T4 [THEN conjunct1] obtain f4 where t4:
    "from_stream sample_env sample_world (AsyncIterator [hello_bytes, png_signature]) None = Inr f4"
    "fst (read f4) = concat [hello_bytes, png_signature]"
    by (elim conjE exE)
  from T5 [THEN conjunct1] obtain f5 where t5:
    "from_stream sample_env sample_world (FileLike hello_bytes) None = Inr f5"
    "fst (read f5) = hello_bytes"
    by (elim conjE exE)
  from T6 [THEN mp, OF conjI [OF c d]] obtain f6 where t6:
    "from_s3 sample_env sample_world ''bucket'' ''docs/hello.txt'' None = Inr f6"
    "fst (read f6) = hello_bytes"
    by (elim conjE exE)
  have t3': "fst (read f3) = hello_bytes" using t3(2) by simp
  have t4': "fst (read f4) = hello_bytes @ png_signature" using t4(2) by simp
  have t2': "fst (read f2) = png_signature" using t2(2) r by simp
  show ?thesis
    using a b c d t1 t2(1) t2' t3(1) t3' t4(1) t4' t5 t6 by (intro conjI exI) assumption+
qed

section \<open>The two forms of a Content-Disposition filename\<close>






























end
